theory Spec2Isabelle
  imports Complex_Main
begin

section \<open>Scalars, vectors, matrices\<close>

text \<open>
  The class template \<open>SO2Group<Scalar>\<close> of \<open>sophus/so2.hpp\<close> is embedded at
  \<open>Scalar = double\<close> (\<open>SO2d\<close>), a value of which is an exact real: \<open>sqrt\<close>, \<open>sin\<close>,
  \<open>cos\<close> are the real functions, and no rounding takes place. Two features of the
  floating-point type are kept where the code's result depends on them: the largest
  finite value \<open>Scalar_max\<close>, beyond which the sum of squares in \<open>normalize\<close> is
  infinite, and the sign bit of a zero, which \<open>atan2\<close> reads.

  \<open>Matrix<Scalar,2,1>\<close> (the \<open>ComplexType\<close> of the traits) and \<open>Matrix<Scalar,2,2>\<close>
  are records of their coefficients; \<open>x_coeff\<close> and \<open>y_coeff\<close> are Eigen's \<open>x()\<close>
  and \<open>y()\<close> (also \<open>p[0]\<close> and \<open>p[1]\<close>), and \<open>m\<close>\<^emph>\<open>ij\<close> is \<open>R(i,j)\<close>.
\<close>

type_synonym Scalar = real

text \<open>The largest finite \<open>double\<close>, \<open>DBL_MAX\<close>.\<close>

definition Scalar_max :: real where
  "Scalar_max = (2 - 1 / 2 ^ 52) * 2 ^ 1023"

record Vector2 =
  x_coeff :: Scalar
  y_coeff :: Scalar

record Matrix22 =
  m00 :: Scalar
  m01 :: Scalar
  m10 :: Scalar
  m11 :: Scalar

text \<open>The only data member of \<open>SO2Group\<close> is \<open>unit_complex_\<close>.\<close>

record SO2Group =
  unit_complex :: Vector2

text \<open>
  A failed \<open>assert\<close> is the only way an operation of this file does not return; it is
  the one error value. The embedding is that of a build in which assertions are checked.
\<close>

datatype error = AssertionFailed

definition and_then :: "error + 'a \<Rightarrow> ('a \<Rightarrow> error + 'b) \<Rightarrow> error + 'b" where
  "and_then r f = (case r of Inl e \<Rightarrow> Inl e | Inr v \<Rightarrow> f v)"

text \<open>
  \<open>SophusConstants<Scalar>::epsilon()\<close> is declared in \<open>sophus.hpp\<close>; every
  operation that asserts against it takes its value as the parameter \<open>eps\<close>.
\<close>

text \<open>
  The C library's \<open>atan2(y, x)\<close> (IEC 60559): the angle of the point \<open>(x, y)\<close>,
  chosen by the signs of both arguments. A real number has no signed zero, so the
  sign bits come separately: \<open>y_neg\<close> and \<open>x_neg\<close> are the sign bits of \<open>y\<close> and \<open>x\<close>
  and are read only where the argument is zero. \<open>atan2(\<plusminus>0, x)\<close> is \<open>\<plusminus>pi\<close> for
  negative \<open>x\<close> and for \<open>x = -0\<close>, and \<open>\<plusminus>0\<close> for positive \<open>x\<close> and for \<open>x = +0\<close>.
\<close>

definition atan2 :: "bool \<Rightarrow> bool \<Rightarrow> real \<Rightarrow> real \<Rightarrow> real" where
  "atan2 y_neg x_neg y x =
    (if 0 < x then arctan (y / x)
     else if x < 0 then
       (if 0 < y \<or> (y = 0 \<and> \<not> y_neg) then arctan (y / x) + pi else arctan (y / x) - pi)
     else if 0 < y then pi / 2
     else if y < 0 then - (pi / 2)
     else if x_neg then (if y_neg then - pi else pi)
     else 0)"

section \<open>Operations on one rotation value\<close>

text \<open>
  \<open>normalize()\<close>: the receiver is passed in and returned updated. \<open>len\<close> is the local
  \<open>length\<close>. When the sum of the squares exceeds \<open>Scalar_max\<close> it is infinite in the
  code, and so is \<open>length\<close>: the assertion holds and both quotients are zero. When
  \<open>eps\<close> is negative the assertion lets a zero length through and the source divides
  by zero; theorems that depend on the quotient assume \<open>0 \<le> eps\<close>.
\<close>

definition normalize_SO2 :: "real \<Rightarrow> SO2Group \<Rightarrow> error + SO2Group" where
  "normalize_SO2 eps this =
    (let squares = x_coeff (unit_complex this) * x_coeff (unit_complex this)
                 + y_coeff (unit_complex this) * y_coeff (unit_complex this)
     in if squares > Scalar_max
        then Inr (this\<lparr>unit_complex := \<lparr>x_coeff = 0, y_coeff = 0\<rparr>\<rparr>)
        else
          (let len = sqrt squares
           in if len > eps
              then Inr (this\<lparr>unit_complex :=
                          \<lparr>x_coeff = x_coeff (unit_complex this) / len,
                           y_coeff = y_coeff (unit_complex this) / len\<rparr>\<rparr>)
              else Inl AssertionFailed))"

text \<open>
  The constructors, in the order of the source. In the three that assert, a sum of
  squares beyond \<open>Scalar_max\<close> is infinite and above \<open>eps\<close>, as the real sum is.
\<close>

definition SO2Group_default :: SO2Group where
  "SO2Group_default = \<lparr>unit_complex = \<lparr>x_coeff = 1, y_coeff = 0\<rparr>\<rparr>"

definition SO2Group_copy :: "SO2Group \<Rightarrow> SO2Group" where
  "SO2Group_copy other = \<lparr>unit_complex = unit_complex other\<rparr>"

definition SO2Group_matrix :: "Matrix22 \<Rightarrow> SO2Group" where
  "SO2Group_matrix R =
    \<lparr>unit_complex = \<lparr>x_coeff = 0.5 * (m00 R + m11 R), y_coeff = 0.5 * (m10 R - m01 R)\<rparr>\<rparr>"

definition SO2Group_pair :: "real \<Rightarrow> Scalar \<Rightarrow> Scalar \<Rightarrow> error + SO2Group" where
  "SO2Group_pair eps re im =
    (if re * re + im * im > eps
     then normalize_SO2 eps \<lparr>unit_complex = \<lparr>x_coeff = re, y_coeff = im\<rparr>\<rparr>
     else Inl AssertionFailed)"

definition SO2Group_vector :: "real \<Rightarrow> Vector2 \<Rightarrow> error + SO2Group" where
  "SO2Group_vector eps c =
    (if x_coeff c * x_coeff c + y_coeff c * y_coeff c > eps
     then normalize_SO2 eps \<lparr>unit_complex = \<lparr>x_coeff = x_coeff c, y_coeff = y_coeff c\<rparr>\<rparr>
     else Inl AssertionFailed)"


text \<open>\<open>exp\<close> builds its result with the constructor from a 2-vector.\<close>

definition exp_SO2 :: "real \<Rightarrow> Scalar \<Rightarrow> error + SO2Group" where
  "exp_SO2 eps theta = SO2Group_vector eps \<lparr>x_coeff = cos theta, y_coeff = sin theta\<rparr>"





text \<open>The const member functions that take no other rotation.\<close>

definition Adj :: "SO2Group \<Rightarrow> Scalar" where
  "Adj this = 1"

text \<open>
  \<open>cast<NewScalarType>()\<close>: the coefficient-wise cast is the identity on exact reals;
  \<open>eps_new\<close> is the epsilon of the new scalar type, against which the constructor of
  the result asserts.
\<close>

definition cast :: "real \<Rightarrow> SO2Group \<Rightarrow> error + SO2Group" where
  "cast eps_new this = SO2Group_vector eps_new (unit_complex this)"

definition inverse_SO2 :: "real \<Rightarrow> SO2Group \<Rightarrow> error + SO2Group" where
  "inverse_SO2 eps this =
    SO2Group_pair eps (x_coeff (unit_complex this)) (- y_coeff (unit_complex this))"

text \<open>
  \<open>log\<close>: \<open>imag_neg\<close> and \<open>real_neg\<close> are the sign bits of the two stored
  coefficients, which \<open>atan2\<close> reads where a coefficient is zero.
\<close>

definition log_SO2 :: "bool \<Rightarrow> bool \<Rightarrow> SO2Group \<Rightarrow> Scalar" where
  "log_SO2 imag_neg real_neg other =
    atan2 imag_neg real_neg (y_coeff (unit_complex other)) (x_coeff (unit_complex other))"

definition matrix_SO2 :: "SO2Group \<Rightarrow> Matrix22" where
  "matrix_SO2 this =
    (let re = x_coeff (unit_complex this); im = y_coeff (unit_complex this)
     in \<lparr>m00 = re, m01 = - im, m10 = im, m11 = re\<rparr>)"

text \<open>\<open>operator*\<close> on a point: the group action.\<close>

definition operator_mul_point :: "SO2Group \<Rightarrow> Vector2 \<Rightarrow> Vector2" where
  "operator_mul_point this p =
    (let re = x_coeff (unit_complex this); im = y_coeff (unit_complex this)
     in \<lparr>x_coeff = re * x_coeff p - im * y_coeff p,
         y_coeff = im * x_coeff p + re * y_coeff p\<rparr>)"

text \<open>The static functions of the Lie algebra.\<close>

definition hat :: "Scalar \<Rightarrow> Matrix22" where
  "hat theta = \<lparr>m00 = 0, m01 = - theta, m10 = theta, m11 = 0\<rparr>"

definition generator :: Matrix22 where
  "generator = hat 1"

definition lieBracket :: "Scalar \<Rightarrow> Scalar \<Rightarrow> Scalar" where
  "lieBracket theta1 theta2 = 0"

definition vee :: "real \<Rightarrow> Matrix22 \<Rightarrow> error + Scalar" where
  "vee eps Omega =
    (if \<bar>m10 Omega + m01 Omega\<bar> < eps then Inr (m10 Omega) else Inl AssertionFailed)"

section \<open>Operations that take a reference to another rotation\<close>

text \<open>
  \<open>fastMultiply\<close>, \<open>operator*=\<close> and \<open>operator*\<close> receive \<open>other\<close> by reference, and
  nothing keeps it from being the receiver itself. They are therefore embedded over
  a store that maps references to objects, \<open>this\<close> and \<open>other\<close> being references.

  In \<open>fastMultiply\<close> the locals \<open>lhs_real\<close> and \<open>lhs_imag\<close> are copies, while
  \<open>rhs_real\<close> and \<open>rhs_imag\<close> are references into \<open>other\<close>: the second assignment
  reads \<open>other\<close> from the store as the first assignment left it.
\<close>

type_synonym 'r store = "'r \<Rightarrow> SO2Group"

definition fastMultiply :: "'r store \<Rightarrow> 'r \<Rightarrow> 'r \<Rightarrow> 'r store" where
  "fastMultiply s this other =
    (let lhs_real = x_coeff (unit_complex (s this));
         lhs_imag = y_coeff (unit_complex (s this));
         s1 = s(this := (s this)\<lparr>unit_complex := (unit_complex (s this))
                \<lparr>x_coeff := lhs_real * x_coeff (unit_complex (s other))
                           - lhs_imag * y_coeff (unit_complex (s other))\<rparr>\<rparr>);
         s2 = s1(this := (s1 this)\<lparr>unit_complex := (unit_complex (s1 this))
                \<lparr>y_coeff := lhs_real * y_coeff (unit_complex (s1 other))
                           + lhs_imag * x_coeff (unit_complex (s1 other))\<rparr>\<rparr>)
     in s2)"

definition operator_mul_assign :: "real \<Rightarrow> 'r store \<Rightarrow> 'r \<Rightarrow> 'r \<Rightarrow> error + 'r store" where
  "operator_mul_assign eps s this other =
    (let s1 = fastMultiply s this other
     in case normalize_SO2 eps (s1 this) of
          Inl e \<Rightarrow> Inl e
        | Inr a \<Rightarrow> Inr (s1(this := a)))"

text \<open>
  \<open>operator*\<close> on a rotation: the local \<open>result\<close> is a new object, the reference
  \<open>None\<close> of a store that extends the caller's, whose references become \<open>Some r\<close>.
  The function returns the value of \<open>result\<close> and the caller's store as the call
  leaves it.
\<close>

definition operator_mul ::
  "real \<Rightarrow> 'r store \<Rightarrow> 'r \<Rightarrow> 'r \<Rightarrow> error + (SO2Group \<times> 'r store)" where
  "operator_mul eps s this other =
    (let frame = (\<lambda>r. case r of None \<Rightarrow> SO2Group_copy (s this) | Some a \<Rightarrow> s a)
     in case operator_mul_assign eps frame None (Some other) of
          Inl e \<Rightarrow> Inl e
        | Inr frame' \<Rightarrow> Inr (frame' None, \<lambda>a. frame' (Some a)))"

text \<open>
  The product \<open>a * b\<close> of two rotation values: \<open>operator*\<close> called on a store that
  holds \<open>a\<close> and \<open>b\<close> as two objects.
\<close>

definition mul :: "real \<Rightarrow> SO2Group \<Rightarrow> SO2Group \<Rightarrow> error + SO2Group" where
  "mul eps a b =
    map_sum id fst (operator_mul eps (\<lambda>r::bool. if r then a else b) True False)"

text \<open>
  The const member functions as calls on an object of a store: each reads the receiver
  through \<open>unit_complex()\<close> and hands back the store it was given.
\<close>

definition inverse_call :: "real \<Rightarrow> 'r store \<Rightarrow> 'r \<Rightarrow> error + (SO2Group \<times> 'r store)" where
  "inverse_call eps s this =
    (case inverse_SO2 eps (s this) of Inl e \<Rightarrow> Inl e | Inr r \<Rightarrow> Inr (r, s))"

definition cast_call :: "real \<Rightarrow> 'r store \<Rightarrow> 'r \<Rightarrow> error + (SO2Group \<times> 'r store)" where
  "cast_call eps_new s this =
    (case cast eps_new (s this) of Inl e \<Rightarrow> Inl e | Inr r \<Rightarrow> Inr (r, s))"

definition matrix_call :: "'r store \<Rightarrow> 'r \<Rightarrow> Matrix22 \<times> 'r store" where
  "matrix_call s this = (matrix_SO2 (s this), s)"

definition log_call :: "bool \<Rightarrow> bool \<Rightarrow> 'r store \<Rightarrow> 'r \<Rightarrow> Scalar \<times> 'r store" where
  "log_call imag_neg real_neg s this = (log_SO2 imag_neg real_neg (s this), s)"

section \<open>Predicates of the specification\<close>

definition unit_length :: "SO2Group \<Rightarrow> bool" where
  "unit_length a \<longleftrightarrow>
    x_coeff (unit_complex a) * x_coeff (unit_complex a)
      + y_coeff (unit_complex a) * y_coeff (unit_complex a) = 1"


text \<open>
  The precondition of the constructor from a matrix: \<open>R\<close> is orthogonal
  (\<open>R\<^sup>T R\<close> is the identity) with determinant \<open>1\<close>.
\<close>

definition transpose22 :: "Matrix22 \<Rightarrow> Matrix22" where
  "transpose22 R = \<lparr>m00 = m00 R, m01 = m10 R, m10 = m01 R, m11 = m11 R\<rparr>"

definition mat_mul22 :: "Matrix22 \<Rightarrow> Matrix22 \<Rightarrow> Matrix22" where
  "mat_mul22 A B =
    \<lparr>m00 = m00 A * m00 B + m01 A * m10 B, m01 = m00 A * m01 B + m01 A * m11 B,
     m10 = m10 A * m00 B + m11 A * m10 B, m11 = m10 A * m01 B + m11 A * m11 B\<rparr>"

definition identity22 :: Matrix22 where
  "identity22 = \<lparr>m00 = 1, m01 = 0, m10 = 0, m11 = 1\<rparr>"

definition determinant22 :: "Matrix22 \<Rightarrow> real" where
  "determinant22 R = m00 R * m11 R - m01 R * m10 R"

definition rotation_matrix :: "Matrix22 \<Rightarrow> bool" where
  "rotation_matrix R \<longleftrightarrow>
    mat_mul22 (transpose22 R) R = identity22 \<and> determinant22 R = 1"

text \<open>
  The product of two pairs as complex numbers, what \<open>fastMultiply\<close> computes when
  \<open>other\<close> is not the receiver.
\<close>

definition cmul :: "SO2Group \<Rightarrow> SO2Group \<Rightarrow> SO2Group" where
  "cmul a b =
    \<lparr>unit_complex =
      \<lparr>x_coeff = x_coeff (unit_complex a) * x_coeff (unit_complex b)
                - y_coeff (unit_complex a) * y_coeff (unit_complex b),
       y_coeff = x_coeff (unit_complex a) * y_coeff (unit_complex b)
                + y_coeff (unit_complex a) * x_coeff (unit_complex b)\<rparr>\<rparr>"

section \<open>The range of the scalar type\<close>

lemma Scalar_max_ge: "2 ^ 1023 \<le> Scalar_max"
proof -
  have "(1::real) \<le> 2 - 1 / 2 ^ 52"
    by simp
  then have "1 * (2::real) ^ 1023 \<le> (2 - 1 / 2 ^ 52) * 2 ^ 1023"
    by (intro mult_right_mono) simp_all
  then show ?thesis
    by (simp only: Scalar_max_def mult_1)
qed


lemma small_in_range:
  assumes "q \<le> 100"
  shows "q \<le> Scalar_max"
proof -
  have "(100::real) \<le> 2 ^ 7"
    by simp
  also have "\<dots> \<le> 2 ^ 1023"
    by (intro power_increasing) simp_all
  finally show ?thesis
    using assms Scalar_max_ge by linarith
qed

lemma not_overflow_small:
  assumes "q \<le> 100"
  shows "\<not> Scalar_max < q"
  using small_in_range [OF assms] by simp





section \<open>Normalization and the product\<close>

lemma normalize_SO2_in_range:
  assumes "x_coeff (unit_complex a) * x_coeff (unit_complex a)
         + y_coeff (unit_complex a) * y_coeff (unit_complex a) \<le> Scalar_max"
  shows "normalize_SO2 eps a =
    (if eps < sqrt (x_coeff (unit_complex a) * x_coeff (unit_complex a)
                  + y_coeff (unit_complex a) * y_coeff (unit_complex a))
     then Inr (a\<lparr>unit_complex :=
       \<lparr>x_coeff = x_coeff (unit_complex a)
           / sqrt (x_coeff (unit_complex a) * x_coeff (unit_complex a)
                 + y_coeff (unit_complex a) * y_coeff (unit_complex a)),
        y_coeff = y_coeff (unit_complex a)
           / sqrt (x_coeff (unit_complex a) * x_coeff (unit_complex a)
                 + y_coeff (unit_complex a) * y_coeff (unit_complex a))\<rparr>\<rparr>)
     else Inl AssertionFailed)"
  using assms unfolding normalize_SO2_def Let_def by (simp only: not_less [symmetric] if_False)





lemma unit_in_range:
  assumes "unit_length a"
  shows "x_coeff (unit_complex a) * x_coeff (unit_complex a)
       + y_coeff (unit_complex a) * y_coeff (unit_complex a) \<le> Scalar_max"
  using assms by (intro small_in_range) (simp add: unit_length_def)

lemma normalize_SO2_of_unit:
  fixes a :: SO2Group
  assumes "eps < 1" and "unit_length a"
  shows "normalize_SO2 eps a = Inr a"
  using assms by (simp add: normalize_SO2_in_range [OF unit_in_range [OF assms(2)]] unit_length_def)

lemma fastMultiply_this:
  "this \<noteq> other \<Longrightarrow> fastMultiply s this other this = (s this)\<lparr>unit_complex := unit_complex (cmul (s this) (s other))\<rparr>"
  by (simp add: fastMultiply_def Let_def cmul_def)

lemma fastMultiply_frame:
  "r \<noteq> this \<Longrightarrow> fastMultiply s this other r = s r"
  by (simp add: fastMultiply_def Let_def)

lemma operator_mul_eq:
  "operator_mul eps s this other =
    (case normalize_SO2 eps (cmul (s this) (s other)) of
       Inl e \<Rightarrow> Inl e
     | Inr r \<Rightarrow> Inr (r, s))"
  by (auto simp: operator_mul_def operator_mul_assign_def Let_def fastMultiply_this fastMultiply_frame
      SO2Group_copy_def cmul_def fun_eq_iff split: sum.splits)

lemma mul_eq: "mul eps a b = normalize_SO2 eps (cmul a b)"
  by (simp add: mul_def operator_mul_eq split: sum.splits)

lemma cmul_unit:
  assumes "unit_length a" and "unit_length b"
  shows "unit_length (cmul a b)"
proof -
  have "(p * r - q * t) * (p * r - q * t) + (p * t + q * r) * (p * t + q * r)
      = (p * p + q * q) * (r * r + t * t)" for p q r t :: real
    by (simp add: algebra_simps)
  with assms show ?thesis
    by (simp add: unit_length_def cmul_def)
qed

section \<open>The angle function\<close>








section \<open>Establishing the unit length\<close>

lemma SO2Group_pair_of_unit:
  assumes "eps < 1" and "re * re + im * im = 1"
  shows "SO2Group_pair eps re im = Inr \<lparr>unit_complex = \<lparr>x_coeff = re, y_coeff = im\<rparr>\<rparr>"
proof -
  have "unit_length \<lparr>unit_complex = \<lparr>x_coeff = re, y_coeff = im\<rparr>\<rparr>"
    using assms(2) by (simp add: unit_length_def)
  from normalize_SO2_of_unit [OF assms(1) this] assms show ?thesis
    by (simp add: SO2Group_pair_def)
qed

lemma SO2Group_vector_of_unit:
  assumes "eps < 1" and "x_coeff c * x_coeff c + y_coeff c * y_coeff c = 1"
  shows "SO2Group_vector eps c = Inr \<lparr>unit_complex = \<lparr>x_coeff = x_coeff c, y_coeff = y_coeff c\<rparr>\<rparr>"
proof -
  have "unit_length \<lparr>unit_complex = \<lparr>x_coeff = x_coeff c, y_coeff = y_coeff c\<rparr>\<rparr>"
    using assms(2) by (simp add: unit_length_def)
  from normalize_SO2_of_unit [OF assms(1) this] assms show ?thesis
    by (simp add: SO2Group_vector_def)
qed












lemma rotation_matrix_entries:
  assumes "rotation_matrix R"
  shows "m00 R = m11 R" and "m10 R = - m01 R" and "m00 R * m00 R + m10 R * m10 R = 1"
proof -
  from assms have c1: "m00 R * m00 R + m10 R * m10 R = 1"
    and c2: "m01 R * m01 R + m11 R * m11 R = 1"
    and d: "m00 R * m11 R - m01 R * m10 R = 1"
    by (simp_all add: rotation_matrix_def mat_mul22_def transpose22_def identity22_def
        determinant22_def)
  have "(m00 R - m11 R) * (m00 R - m11 R) + (m10 R + m01 R) * (m10 R + m01 R)
      = (m00 R * m00 R + m10 R * m10 R) + (m01 R * m01 R + m11 R * m11 R)
        - 2 * (m00 R * m11 R - m01 R * m10 R)"
    by (simp add: algebra_simps)
  also have "\<dots> = 0"
    by (simp only: c1 c2 d)
  finally have z: "(m00 R - m11 R) * (m00 R - m11 R) + (m10 R + m01 R) * (m10 R + m01 R) = 0" .
  then have "m00 R - m11 R = 0 \<and> m10 R + m01 R = 0"
    by (simp add: sum_squares_eq_zero_iff)
  then show "m00 R = m11 R" and "m10 R = - m01 R"
    by simp_all
  show "m00 R * m00 R + m10 R * m10 R = 1" by (rule c1)
qed

lemma SO2Group_matrix_unit:
  assumes "rotation_matrix R"
  shows "unit_length (SO2Group_matrix R)"
  using rotation_matrix_entries [OF assms]
  by (simp add: unit_length_def SO2Group_matrix_def)




lemma exp_SO2_eq:
  assumes "eps < 1"
  shows "exp_SO2 eps t = Inr \<lparr>unit_complex = \<lparr>x_coeff = cos t, y_coeff = sin t\<rparr>\<rparr>"
proof -
  have "cos t * cos t + sin t * sin t = 1"
    using sin_cos_squared_add2 [of t] by (simp add: power2_eq_square)
  with SO2Group_vector_of_unit [OF assms, of "\<lparr>x_coeff = cos t, y_coeff = sin t\<rparr>"]
  show ?thesis by (simp add: exp_SO2_def)
qed

lemma inverse_SO2_of_unit:
  assumes "eps < 1" and "unit_length A"
  shows "inverse_SO2 eps A
    = Inr \<lparr>unit_complex = \<lparr>x_coeff = x_coeff (unit_complex A), y_coeff = - y_coeff (unit_complex A)\<rparr>\<rparr>"
  unfolding inverse_SO2_def using assms(2)
  by (intro SO2Group_pair_of_unit [OF assms(1)]) (simp add: unit_length_def)

lemma mul_of_unit:
  assumes "eps < 1" and "unit_length A" and "unit_length B"
  shows "mul eps A B = Inr (cmul A B)"
  unfolding mul_eq by (rule normalize_SO2_of_unit [OF assms(1) cmul_unit [OF assms(2,3)]])

lemma cmul_commute: "cmul A B = cmul B A"
  by (simp add: cmul_def algebra_simps)

lemma cmul_assoc: "cmul (cmul A B) C = cmul A (cmul B C)"
  by (simp add: cmul_def algebra_simps)


section \<open>Failing assertions\<close>




section \<open>The claims\<close>




text \<open>
  Claim C2. For every real \<open>theta\<close>, \<open>exp\<close> returns the rotation whose pair is
  \<open>(cos theta, sin theta)\<close>: it never fails (the assertions of the constructor it
  calls hold, epsilon being below one) and the result has unit length. At \<open>0\<close> the
  result is the pair \<open>(1, 0)\<close>, which is also what the default constructor builds.
\<close>

theorem exp_is_cos_sin:
  assumes "eps < 1"
  shows "exp_SO2 eps theta = Inr \<lparr>unit_complex = \<lparr>x_coeff = cos theta, y_coeff = sin theta\<rparr>\<rparr>
    \<and> unit_length \<lparr>unit_complex = \<lparr>x_coeff = cos theta, y_coeff = sin theta\<rparr>\<rparr>
    \<and> exp_SO2 eps 0 = Inr \<lparr>unit_complex = \<lparr>x_coeff = 1, y_coeff = 0\<rparr>\<rparr>
    \<and> SO2Group_default = \<lparr>unit_complex = \<lparr>x_coeff = 1, y_coeff = 0\<rparr>\<rparr>"
proof -
  have u: "cos theta * cos theta + sin theta * sin theta = 1"
    using sin_cos_squared_add2 [of theta] by (simp add: power2_eq_square)
  show ?thesis
    using exp_SO2_eq [OF assms, of theta] exp_SO2_eq [OF assms, of 0] u
    by (simp add: unit_length_def SO2Group_default_def)
qed

theorem exp_is_cos_sin_witness:
  "(1 / 10 ^ 10 :: real) < 1
   \<and> exp_SO2 (1 / 10 ^ 10) pi = Inr \<lparr>unit_complex = \<lparr>x_coeff = - 1, y_coeff = 0\<rparr>\<rparr>
   \<and> unit_length \<lparr>unit_complex = \<lparr>x_coeff = - 1, y_coeff = 0\<rparr>\<rparr>"
  using exp_is_cos_sin [of "1 / 10 ^ 10" pi] by simp




text \<open>
  Claim C4. On a rotation \<open>A\<close> of unit length, and with epsilon below one, \<open>inverse\<close>
  passes the assertions of the constructor it calls and returns
  the conjugate pair \<open>(real, - imag)\<close>; the product of \<open>A\<close> with its inverse is the
  identity (the value of the default constructor), and the inverse of the inverse is
  \<open>A\<close>.
\<close>

theorem inverse_is_conjugate:
  assumes "eps < 1" and "unit_length A"
  shows "inverse_SO2 eps A
      = Inr \<lparr>unit_complex = \<lparr>x_coeff = x_coeff (unit_complex A), y_coeff = - y_coeff (unit_complex A)\<rparr>\<rparr>
    \<and> and_then (inverse_SO2 eps A) (mul eps A) = Inr SO2Group_default
    \<and> and_then (inverse_SO2 eps A) (inverse_SO2 eps) = Inr A"
proof -
  let ?Ai = "\<lparr>unit_complex = \<lparr>x_coeff = x_coeff (unit_complex A), y_coeff = - y_coeff (unit_complex A)\<rparr>\<rparr>"
  note i = inverse_SO2_of_unit [OF assms]
  from assms(2) have ui: "unit_length ?Ai"
    by (simp add: unit_length_def)
  have "mul eps A ?Ai = Inr (cmul A ?Ai)"
    by (rule mul_of_unit [OF assms ui])
  moreover have "cmul A ?Ai = SO2Group_default"
    using assms(2) by (simp add: cmul_def SO2Group_default_def unit_length_def)
  ultimately have 1: "and_then (inverse_SO2 eps A) (mul eps A) = Inr SO2Group_default"
    by (simp add: i and_then_def)
  have 2: "and_then (inverse_SO2 eps A) (inverse_SO2 eps) = Inr A"
    using inverse_SO2_of_unit [OF assms(1) ui] by (simp add: i and_then_def)
  from i 1 2 show ?thesis by simp
qed

theorem inverse_is_conjugate_witness:
  "(1 / 10000000000 :: real) < 1
   \<and> unit_length \<lparr>unit_complex = \<lparr>x_coeff = 3 / 5, y_coeff = 4 / 5\<rparr>\<rparr>
   \<and> inverse_SO2 (1 / 10000000000) \<lparr>unit_complex = \<lparr>x_coeff = 3 / 5, y_coeff = 4 / 5\<rparr>\<rparr>
      = Inr \<lparr>unit_complex = \<lparr>x_coeff = 3 / 5, y_coeff = - (4 / 5)\<rparr>\<rparr>
   \<and> mul (1 / 10000000000) \<lparr>unit_complex = \<lparr>x_coeff = 3 / 5, y_coeff = 4 / 5\<rparr>\<rparr>
        \<lparr>unit_complex = \<lparr>x_coeff = 3 / 5, y_coeff = - (4 / 5)\<rparr>\<rparr>
      = Inr \<lparr>unit_complex = \<lparr>x_coeff = 1, y_coeff = 0\<rparr>\<rparr>
   \<and> inverse_SO2 (1 / 10000000000) \<lparr>unit_complex = \<lparr>x_coeff = 3 / 5, y_coeff = - (4 / 5)\<rparr>\<rparr>
      = Inr \<lparr>unit_complex = \<lparr>x_coeff = 3 / 5, y_coeff = 4 / 5\<rparr>\<rparr>"
proof -
  let ?A = "\<lparr>unit_complex = \<lparr>x_coeff = 3 / 5, y_coeff = 4 / 5\<rparr>\<rparr>"
  have e: "(1 / 10000000000 :: real) < 1"
    by simp
  have u: "unit_length ?A"
    by (simp add: unit_length_def)
  note t = inverse_is_conjugate [OF e u]
  from t have i: "inverse_SO2 (1 / 10000000000) ?A
      = Inr \<lparr>unit_complex = \<lparr>x_coeff = 3 / 5, y_coeff = - (4 / 5)\<rparr>\<rparr>"
    by simp
  from t have "and_then (inverse_SO2 (1 / 10000000000) ?A) (mul (1 / 10000000000) ?A) = Inr SO2Group_default"
    by blast
  then have m: "mul (1 / 10000000000) ?A \<lparr>unit_complex = \<lparr>x_coeff = 3 / 5, y_coeff = - (4 / 5)\<rparr>\<rparr>
      = Inr \<lparr>unit_complex = \<lparr>x_coeff = 1, y_coeff = 0\<rparr>\<rparr>"
    by (simp add: i and_then_def SO2Group_default_def)
  from t have "and_then (inverse_SO2 (1 / 10000000000) ?A) (inverse_SO2 (1 / 10000000000)) = Inr ?A"
    by blast
  then have ii: "inverse_SO2 (1 / 10000000000) \<lparr>unit_complex = \<lparr>x_coeff = 3 / 5, y_coeff = - (4 / 5)\<rparr>\<rparr>
      = Inr ?A"
    by (simp add: i and_then_def)
  from e u i m ii show ?thesis
    by blast
qed

text \<open>
  Claim C5. The group multiplication \<open>operator*\<close> is associative and commutative on
  rotations of unit length: \<open>(A * B) * C = A * (B * C)\<close> and \<open>A * B = B * A\<close>, every
  product involved being returned (no assertion fails, epsilon being below one).
\<close>

theorem mul_assoc_commute:
  assumes "eps < 1" and "unit_length A" and "unit_length B" and "unit_length C"
  shows "and_then (mul eps A B) (\<lambda>AB. mul eps AB C) = and_then (mul eps B C) (mul eps A)
    \<and> mul eps A B = mul eps B A
    \<and> mul eps A B = Inr (cmul A B)
    \<and> and_then (mul eps A B) (\<lambda>AB. mul eps AB C) = Inr (cmul (cmul A B) C)"
proof -
  note ab = mul_of_unit [OF assms(1,2,3)] and bc = mul_of_unit [OF assms(1,3,4)]
    and ba = mul_of_unit [OF assms(1,3,2)]
  have l: "and_then (mul eps A B) (\<lambda>AB. mul eps AB C) = Inr (cmul (cmul A B) C)"
    using mul_of_unit [OF assms(1) cmul_unit [OF assms(2,3)] assms(4)]
    by (simp add: ab and_then_def)
  have r: "and_then (mul eps B C) (mul eps A) = Inr (cmul A (cmul B C))"
    using mul_of_unit [OF assms(1,2) cmul_unit [OF assms(3,4)]]
    by (simp add: bc and_then_def)
  have 1: "and_then (mul eps A B) (\<lambda>AB. mul eps AB C) = and_then (mul eps B C) (mul eps A)"
    by (simp only: l r cmul_assoc)
  have 2: "mul eps A B = mul eps B A"
    by (simp only: ab ba cmul_commute [of A B])
  from 1 2 ab l show ?thesis
    by blast
qed

theorem mul_assoc_commute_witness:
  "(1 / 10000000000 :: real) < 1
   \<and> unit_length \<lparr>unit_complex = \<lparr>x_coeff = 3 / 5, y_coeff = 4 / 5\<rparr>\<rparr>
   \<and> unit_length \<lparr>unit_complex = \<lparr>x_coeff = 0, y_coeff = 1\<rparr>\<rparr>
   \<and> unit_length \<lparr>unit_complex = \<lparr>x_coeff = - 1, y_coeff = 0\<rparr>\<rparr>
   \<and> mul (1 / 10000000000) \<lparr>unit_complex = \<lparr>x_coeff = 3 / 5, y_coeff = 4 / 5\<rparr>\<rparr>
        \<lparr>unit_complex = \<lparr>x_coeff = 0, y_coeff = 1\<rparr>\<rparr>
      = Inr \<lparr>unit_complex = \<lparr>x_coeff = - (4 / 5), y_coeff = 3 / 5\<rparr>\<rparr>
   \<and> mul (1 / 10000000000) \<lparr>unit_complex = \<lparr>x_coeff = 0, y_coeff = 1\<rparr>\<rparr>
        \<lparr>unit_complex = \<lparr>x_coeff = 3 / 5, y_coeff = 4 / 5\<rparr>\<rparr>
      = Inr \<lparr>unit_complex = \<lparr>x_coeff = - (4 / 5), y_coeff = 3 / 5\<rparr>\<rparr>
   \<and> and_then (mul (1 / 10000000000) \<lparr>unit_complex = \<lparr>x_coeff = 3 / 5, y_coeff = 4 / 5\<rparr>\<rparr>
          \<lparr>unit_complex = \<lparr>x_coeff = 0, y_coeff = 1\<rparr>\<rparr>)
        (\<lambda>AB. mul (1 / 10000000000) AB \<lparr>unit_complex = \<lparr>x_coeff = - 1, y_coeff = 0\<rparr>\<rparr>)
      = Inr \<lparr>unit_complex = \<lparr>x_coeff = 4 / 5, y_coeff = - (3 / 5)\<rparr>\<rparr>
   \<and> and_then (mul (1 / 10000000000) \<lparr>unit_complex = \<lparr>x_coeff = 0, y_coeff = 1\<rparr>\<rparr>
          \<lparr>unit_complex = \<lparr>x_coeff = - 1, y_coeff = 0\<rparr>\<rparr>)
        (mul (1 / 10000000000) \<lparr>unit_complex = \<lparr>x_coeff = 3 / 5, y_coeff = 4 / 5\<rparr>\<rparr>)
      = Inr \<lparr>unit_complex = \<lparr>x_coeff = 4 / 5, y_coeff = - (3 / 5)\<rparr>\<rparr>"
proof -
  let ?A = "\<lparr>unit_complex = \<lparr>x_coeff = 3 / 5, y_coeff = 4 / 5\<rparr>\<rparr>"
  let ?B = "\<lparr>unit_complex = \<lparr>x_coeff = 0, y_coeff = 1\<rparr>\<rparr>"
  let ?C = "\<lparr>unit_complex = \<lparr>x_coeff = - 1, y_coeff = 0\<rparr>\<rparr>"
  have e: "(1 / 10000000000 :: real) < 1"
    by simp
  have u: "unit_length ?A" "unit_length ?B" "unit_length ?C"
    by (simp_all add: unit_length_def)
  have c: "cmul ?A ?B = \<lparr>unit_complex = \<lparr>x_coeff = - (4 / 5), y_coeff = 3 / 5\<rparr>\<rparr>"
    "cmul (cmul ?A ?B) ?C = \<lparr>unit_complex = \<lparr>x_coeff = 4 / 5, y_coeff = - (3 / 5)\<rparr>\<rparr>"
    by (simp_all add: cmul_def)
  note t = mul_assoc_commute [OF e u]
  from t have 1: "mul (1 / 10000000000) ?A ?B = Inr (cmul ?A ?B)" by blast
  from t have "mul (1 / 10000000000) ?A ?B = mul (1 / 10000000000) ?B ?A" by blast
  with 1 have 2: "mul (1 / 10000000000) ?B ?A = Inr (cmul ?A ?B)" by simp
  from t have 3: "and_then (mul (1 / 10000000000) ?A ?B) (\<lambda>AB. mul (1 / 10000000000) AB ?C)
      = Inr (cmul (cmul ?A ?B) ?C)" by blast
  from t have "and_then (mul (1 / 10000000000) ?A ?B) (\<lambda>AB. mul (1 / 10000000000) AB ?C)
      = and_then (mul (1 / 10000000000) ?B ?C) (mul (1 / 10000000000) ?A)" by blast
  with 3 have 4: "and_then (mul (1 / 10000000000) ?B ?C) (mul (1 / 10000000000) ?A)
      = Inr (cmul (cmul ?A ?B) ?C)" by simp
  note r = 1 [unfolded c(1)] 2 [unfolded c(1)] 3 [unfolded c(2)] 4 [unfolded c(2)]
  from e u r show ?thesis
    by blast
qed

text \<open>
  Claim C6. The action of a rotation on a point \<open>p = (x, y)\<close> is
  \<open>(real * x - imag * y, imag * x + real * y)\<close>, a total function; and for a rotation
  \<open>A\<close> of unit length, acting with the inverse of \<open>A\<close> and then with \<open>A\<close> gives
  \<open>p\<close> back (epsilon is below one, so that \<open>inverse\<close> returns).
\<close>

theorem action_round_trip:
  fixes p :: Vector2
  assumes "eps < 1" and "unit_length A"
  shows "operator_mul_point A p
      = \<lparr>x_coeff = x_coeff (unit_complex A) * x_coeff p - y_coeff (unit_complex A) * y_coeff p,
         y_coeff = y_coeff (unit_complex A) * x_coeff p + x_coeff (unit_complex A) * y_coeff p\<rparr>
    \<and> map_sum id (\<lambda>Ai. operator_mul_point A (operator_mul_point Ai p)) (inverse_SO2 eps A) = Inr p"
proof -
  define a b where "a = x_coeff (unit_complex A)" and "b = y_coeff (unit_complex A)"
  from assms(2) have u: "a * a + b * b = 1"
    by (simp add: unit_length_def a_def b_def)
  have x: "a * (a * x_coeff p + b * y_coeff p) - b * (a * y_coeff p - b * x_coeff p)
      = (a * a + b * b) * x_coeff p"
    by (simp add: algebra_simps)
  have y: "b * (a * x_coeff p + b * y_coeff p) + a * (a * y_coeff p - b * x_coeff p)
      = (a * a + b * b) * y_coeff p"
    by (simp add: algebra_simps)
  have "operator_mul_point A (operator_mul_point
      \<lparr>unit_complex = \<lparr>x_coeff = a, y_coeff = - b\<rparr>\<rparr> p) = p"
    using x y by (simp add: operator_mul_point_def Let_def u flip: a_def b_def)
  then show ?thesis
    by (simp add: inverse_SO2_of_unit [OF assms] operator_mul_point_def Let_def a_def b_def)
qed

theorem action_round_trip_witness:
  "(1 / 10000000000 :: real) < 1
   \<and> unit_length \<lparr>unit_complex = \<lparr>x_coeff = 0, y_coeff = 1\<rparr>\<rparr>
   \<and> operator_mul_point \<lparr>unit_complex = \<lparr>x_coeff = 0, y_coeff = 1\<rparr>\<rparr> \<lparr>x_coeff = 1, y_coeff = 0\<rparr>
      = \<lparr>x_coeff = 0, y_coeff = 1\<rparr>
   \<and> map_sum id
        (\<lambda>Ai. operator_mul_point \<lparr>unit_complex = \<lparr>x_coeff = 0, y_coeff = 1\<rparr>\<rparr>
               (operator_mul_point Ai \<lparr>x_coeff = 1, y_coeff = 0\<rparr>))
        (inverse_SO2 (1 / 10000000000) \<lparr>unit_complex = \<lparr>x_coeff = 0, y_coeff = 1\<rparr>\<rparr>)
      = Inr \<lparr>x_coeff = 1, y_coeff = 0\<rparr>"
proof -
  have e: "(1 / 10000000000 :: real) < 1"
    by simp
  have u: "unit_length \<lparr>unit_complex = \<lparr>x_coeff = 0, y_coeff = 1\<rparr>\<rparr>"
    by (simp add: unit_length_def)
  from action_round_trip [OF e u, of "\<lparr>x_coeff = 1, y_coeff = 0\<rparr>"] e u show ?thesis
    by simp
qed

text \<open>
  Claim C7. \<open>hat theta\<close> is the matrix with rows \<open>(0, - theta)\<close> and \<open>(theta, 0)\<close>;
  \<open>vee\<close> accepts every output of \<open>hat\<close>, and that of \<open>generator\<close>, and returns
  \<open>theta\<close> exactly; and \<open>hat (vee M) = M\<close> for every matrix \<open>M\<close> with a zero diagonal
  and \<open>M(0,1) = - M(1,0)\<close>. Epsilon is positive.
\<close>

theorem vee_inverts_hat:
  fixes M :: Matrix22
  assumes "0 < eps"
  shows "hat theta = \<lparr>m00 = 0, m01 = - theta, m10 = theta, m11 = 0\<rparr>
    \<and> vee eps (hat theta) = Inr theta
    \<and> vee eps generator = Inr 1
    \<and> (m00 M = 0 \<and> m11 M = 0 \<and> m01 M = - m10 M \<longrightarrow> map_sum id hat (vee eps M) = Inr M)"
  using assms by (simp add: hat_def vee_def generator_def)

theorem vee_inverts_hat_witness:
  "(0::real) < 1 / 10000000000
   \<and> vee (1 / 10000000000) (hat 2) = Inr 2
   \<and> vee (1 / 10000000000) generator = Inr 1
   \<and> m00 \<lparr>m00 = 0, m01 = - 3, m10 = 3, m11 = 0\<rparr> = 0
   \<and> m11 \<lparr>m00 = 0, m01 = - 3, m10 = 3, m11 = 0\<rparr> = 0
   \<and> m01 \<lparr>m00 = 0, m01 = - 3, m10 = 3, m11 = 0\<rparr> = - m10 \<lparr>m00 = 0, m01 = - 3, m10 = 3, m11 = 0\<rparr>
   \<and> map_sum id hat (vee (1 / 10000000000) \<lparr>m00 = 0, m01 = - 3, m10 = 3, m11 = 0\<rparr>)
      = Inr \<lparr>m00 = 0, m01 = - 3, m10 = 3, m11 = 0\<rparr>"
proof -
  have e: "(0::real) < 1 / 10000000000"
    by simp
  note t = vee_inverts_hat [OF e, of 2 "\<lparr>m00 = 0, m01 = - 3, m10 = 3, m11 = 0\<rparr>"]
  from t have 1: "vee (1 / 10000000000) (hat 2) = Inr 2"
    and 2: "vee (1 / 10000000000) generator = Inr 1"
    by blast+
  from t have 3: "map_sum id hat (vee (1 / 10000000000) \<lparr>m00 = 0, m01 = - 3, m10 = 3, m11 = 0\<rparr>)
      = Inr \<lparr>m00 = 0, m01 = - 3, m10 = 3, m11 = 0\<rparr>"
    by simp
  from e 1 2 3 show ?thesis
    by simp
qed




text \<open>
  Claim C9. The constructor from a matrix \<open>R\<close> sets \<open>real\<close> to half of
  \<open>R(0,0) + R(1,1)\<close> and \<open>imag\<close> to half of \<open>R(1,0) - R(0,1)\<close>. When \<open>R\<close> is
  orthogonal with determinant one the pair has unit length. Nothing is checked or
  normalized: from twice the identity matrix, which is no rotation, the constructor
  returns the pair \<open>(2, 0)\<close>.
\<close>

theorem matrix_constructor_unchecked:
  "SO2Group_matrix R
      = \<lparr>unit_complex = \<lparr>x_coeff = (m00 R + m11 R) / 2, y_coeff = (m10 R - m01 R) / 2\<rparr>\<rparr>
    \<and> (rotation_matrix R \<longrightarrow> unit_length (SO2Group_matrix R))
    \<and> SO2Group_matrix \<lparr>m00 = 2, m01 = 0, m10 = 0, m11 = 2\<rparr>
      = \<lparr>unit_complex = \<lparr>x_coeff = 2, y_coeff = 0\<rparr>\<rparr>
    \<and> \<not> rotation_matrix \<lparr>m00 = 2, m01 = 0, m10 = 0, m11 = 2\<rparr>
    \<and> \<not> unit_length (SO2Group_matrix \<lparr>m00 = 2, m01 = 0, m10 = 0, m11 = 2\<rparr>)"
proof -
  have 1: "SO2Group_matrix R
      = \<lparr>unit_complex = \<lparr>x_coeff = (m00 R + m11 R) / 2, y_coeff = (m10 R - m01 R) / 2\<rparr>\<rparr>"
    by (simp add: SO2Group_matrix_def)
  have 2: "rotation_matrix R \<longrightarrow> unit_length (SO2Group_matrix R)"
    by (simp add: SO2Group_matrix_unit)
  have 3: "SO2Group_matrix \<lparr>m00 = 2, m01 = 0, m10 = 0, m11 = 2\<rparr>
      = \<lparr>unit_complex = \<lparr>x_coeff = 2, y_coeff = 0\<rparr>\<rparr>"
    by (simp add: SO2Group_matrix_def)
  have 4: "\<not> rotation_matrix \<lparr>m00 = 2, m01 = 0, m10 = 0, m11 = 2\<rparr>"
    by (simp add: rotation_matrix_def determinant22_def)
  have 5: "\<not> unit_length (SO2Group_matrix \<lparr>m00 = 2, m01 = 0, m10 = 0, m11 = 2\<rparr>)"
    by (simp add: 3 unit_length_def)
  from 1 2 3 4 5 show ?thesis
    by blast
qed

theorem matrix_constructor_unchecked_witness:
  "rotation_matrix \<lparr>m00 = 3 / 5, m01 = - (4 / 5), m10 = 4 / 5, m11 = 3 / 5\<rparr>
   \<and> SO2Group_matrix \<lparr>m00 = 3 / 5, m01 = - (4 / 5), m10 = 4 / 5, m11 = 3 / 5\<rparr>
      = \<lparr>unit_complex = \<lparr>x_coeff = 3 / 5, y_coeff = 4 / 5\<rparr>\<rparr>
   \<and> unit_length \<lparr>unit_complex = \<lparr>x_coeff = 3 / 5, y_coeff = 4 / 5\<rparr>\<rparr>"
proof -
  let ?R = "\<lparr>m00 = 3 / 5, m01 = - (4 / 5), m10 = 4 / 5, m11 = 3 / 5\<rparr>"
  have r: "rotation_matrix ?R"
    by (simp add: rotation_matrix_def mat_mul22_def transpose22_def identity22_def
        determinant22_def)
  note t = matrix_constructor_unchecked [of ?R]
  from t have 1: "SO2Group_matrix ?R = \<lparr>unit_complex = \<lparr>x_coeff = 3 / 5, y_coeff = 4 / 5\<rparr>\<rparr>"
    by simp
  from t r have "unit_length (SO2Group_matrix ?R)"
    by blast
  then have 2: "unit_length \<lparr>unit_complex = \<lparr>x_coeff = 3 / 5, y_coeff = 4 / 5\<rparr>\<rparr>"
    by (simp only: 1)
  from r 1 2 show ?thesis
    by blast
qed

text \<open>
  Claim C10. The operations that only read the receiver leave the stored pairs as
  they were: after \<open>operator*\<close> on two rotations, which multiplies into a copy of the
  receiver, and after \<open>inverse\<close>, \<open>cast\<close>, \<open>matrix\<close> and \<open>log\<close>, the store is the one
  before the call, so the receiver has the pair it had (also when \<open>other\<close> is the
  receiver).
\<close>

theorem const_operations_frame:
  "(operator_mul eps s this other = Inr (r, s') \<longrightarrow> s' = s)
   \<and> (inverse_call eps s this = Inr (r, s') \<longrightarrow> s' = s)
   \<and> (cast_call eps s this = Inr (r, s') \<longrightarrow> s' = s)
   \<and> snd (matrix_call s this) = s
   \<and> snd (log_call imag_neg real_neg s this) = s"
  by (auto simp: operator_mul_eq inverse_call_def cast_call_def matrix_call_def log_call_def
      split: sum.splits)

theorem const_operations_frame_witness:
  "operator_mul (1 / 10)
      (\<lambda>r. if r then \<lparr>unit_complex = \<lparr>x_coeff = 3 / 5, y_coeff = 4 / 5\<rparr>\<rparr>
            else \<lparr>unit_complex = \<lparr>x_coeff = 0, y_coeff = 1\<rparr>\<rparr>) True False
    = Inr (\<lparr>unit_complex = \<lparr>x_coeff = - (4 / 5), y_coeff = 3 / 5\<rparr>\<rparr>,
           \<lambda>r. if r then \<lparr>unit_complex = \<lparr>x_coeff = 3 / 5, y_coeff = 4 / 5\<rparr>\<rparr>
                else \<lparr>unit_complex = \<lparr>x_coeff = 0, y_coeff = 1\<rparr>\<rparr>)
   \<and> operator_mul (1 / 10) (\<lambda>r::unit. \<lparr>unit_complex = \<lparr>x_coeff = 0, y_coeff = 1\<rparr>\<rparr>) () ()
    = Inr (\<lparr>unit_complex = \<lparr>x_coeff = - 1, y_coeff = 0\<rparr>\<rparr>,
           \<lambda>r. \<lparr>unit_complex = \<lparr>x_coeff = 0, y_coeff = 1\<rparr>\<rparr>)
   \<and> inverse_call (1 / 10) (\<lambda>r::unit. \<lparr>unit_complex = \<lparr>x_coeff = 0, y_coeff = 1\<rparr>\<rparr>) ()
    = Inr (\<lparr>unit_complex = \<lparr>x_coeff = 0, y_coeff = - 1\<rparr>\<rparr>,
           \<lambda>r. \<lparr>unit_complex = \<lparr>x_coeff = 0, y_coeff = 1\<rparr>\<rparr>)
   \<and> cast_call (1 / 10) (\<lambda>r::unit. \<lparr>unit_complex = \<lparr>x_coeff = 0, y_coeff = 1\<rparr>\<rparr>) ()
    = Inr (\<lparr>unit_complex = \<lparr>x_coeff = 0, y_coeff = 1\<rparr>\<rparr>,
           \<lambda>r. \<lparr>unit_complex = \<lparr>x_coeff = 0, y_coeff = 1\<rparr>\<rparr>)"
proof -
  let ?a = "\<lparr>unit_complex = \<lparr>x_coeff = 3 / 5, y_coeff = 4 / 5\<rparr>\<rparr>"
  let ?b = "\<lparr>unit_complex = \<lparr>x_coeff = 0, y_coeff = 1\<rparr>\<rparr>"
  let ?s = "\<lambda>r. if r then ?a else ?b"
  let ?u = "\<lambda>r::unit. ?b"
  have "\<exists>s'. operator_mul (1 / 10) ?s True False
      = Inr (\<lparr>unit_complex = \<lparr>x_coeff = - (4 / 5), y_coeff = 3 / 5\<rparr>\<rparr>, s')"
    by (simp add: operator_mul_eq normalize_SO2_def cmul_def not_overflow_small)
  then obtain s1 where m1: "operator_mul (1 / 10) ?s True False
      = Inr (\<lparr>unit_complex = \<lparr>x_coeff = - (4 / 5), y_coeff = 3 / 5\<rparr>\<rparr>, s1)" ..
  with const_operations_frame [of "1 / 10" ?s True False _ s1] have "s1 = ?s"
    by blast
  with m1 have 1: "operator_mul (1 / 10) ?s True False
      = Inr (\<lparr>unit_complex = \<lparr>x_coeff = - (4 / 5), y_coeff = 3 / 5\<rparr>\<rparr>, ?s)"
    by simp
  have "\<exists>s'. operator_mul (1 / 10) ?u () ()
      = Inr (\<lparr>unit_complex = \<lparr>x_coeff = - 1, y_coeff = 0\<rparr>\<rparr>, s')"
    by (simp add: operator_mul_eq normalize_SO2_def cmul_def not_overflow_small)
  then obtain s2 where m2: "operator_mul (1 / 10) ?u () ()
      = Inr (\<lparr>unit_complex = \<lparr>x_coeff = - 1, y_coeff = 0\<rparr>\<rparr>, s2)" ..
  with const_operations_frame [of "1 / 10" ?u "()" "()" _ s2] have "s2 = ?u"
    by blast
  with m2 have 2: "operator_mul (1 / 10) ?u () ()
      = Inr (\<lparr>unit_complex = \<lparr>x_coeff = - 1, y_coeff = 0\<rparr>\<rparr>, ?u)"
    by simp
  have 3: "inverse_call (1 / 10) ?u ()
      = Inr (\<lparr>unit_complex = \<lparr>x_coeff = 0, y_coeff = - 1\<rparr>\<rparr>, ?u)"
    by (simp add: inverse_call_def inverse_SO2_def SO2Group_pair_def normalize_SO2_def
        not_overflow_small)
  have 4: "cast_call (1 / 10) ?u () = Inr (?b, ?u)"
    by (simp add: cast_call_def cast_def SO2Group_vector_def normalize_SO2_def
        not_overflow_small)
  from 1 2 3 4 show ?thesis
    by blast
qed

end
